theory Spec2Isabelle
  imports Main
begin

section \<open>JavaScript values\<close>

text \<open>
  The module \<^verbatim>\<open>withApollo.jsx\<close> is glue code around a GraphQL client library and a
  page framework. Its own logic is embedded here function by function; the library
  objects it builds are records of the options the source passes, the external
  collaborators it calls are parameters, and every call of a collaborator is written to
  a trace, in the order in which the source makes the calls.

  A reference that may be \<^verbatim>\<open>undefined\<close> or \<^verbatim>\<open>null\<close> is a \<open>nullable\<close>: the source
  distinguishes the two (a default parameter replaces only \<^verbatim>\<open>undefined\<close>, and
  \<^verbatim>\<open>a && a.b\<close> returns whichever of the two \<^verbatim>\<open>a\<close> is).
\<close>

datatype 'a nullable = Undefined | Null | Val 'a

text \<open>Plain data: what a cache snapshot holds, what a page property is, what is thrown.\<close>

datatype jsval =
    JUndefined
  | JNull
  | JBool bool
  | JNum int
  | JStr string
  | JClient nat
  | JObj "(string \<times> jsval) list"

type_synonym snapshot = "(string \<times> jsval) list"
type_synonym props = "string \<rightharpoonup> jsval"
type_synonym headers_obj = "string \<rightharpoonup> string"

text \<open>
  \<^verbatim>\<open>a && f(a)\<close> where \<^verbatim>\<open>a\<close> is an object reference, \<^verbatim>\<open>undefined\<close> or \<^verbatim>\<open>null\<close>: an object
  is truthy, so the result is \<^verbatim>\<open>f(a)\<close>; otherwise it is \<^verbatim>\<open>a\<close> itself.
\<close>

definition js_and :: "'a nullable \<Rightarrow> ('a \<Rightarrow> 'b nullable) \<Rightarrow> 'b nullable" where
  "js_and a f = (case a of Undefined \<Rightarrow> Undefined | Null \<Rightarrow> Null | Val x \<Rightarrow> f x)"

text \<open>Reading a property of an object that may lack it.\<close>

definition prop_of :: "('k \<rightharpoonup> 'v) \<Rightarrow> 'k \<Rightarrow> 'v nullable" where
  "prop_of obj k = (case obj k of None \<Rightarrow> Undefined | Some v \<Rightarrow> Val v)"

text \<open>The error a property read on \<^verbatim>\<open>undefined\<close> or \<^verbatim>\<open>null\<close> throws.\<close>

definition TypeError :: jsval where
  "TypeError = JObj [(''name'', JStr ''TypeError'')]"

text \<open>\<^verbatim>\<open>error.message\<close> for a caught value: any value can be thrown.\<close>

fun get_message :: "jsval \<Rightarrow> jsval + jsval" where
  "get_message JUndefined = Inl TypeError"
| "get_message JNull = Inl TypeError"
| "get_message (JObj kvs) =
     Inr (case map_of kvs ''message'' of None \<Rightarrow> JUndefined | Some v \<Rightarrow> v)"
| "get_message v = Inr JUndefined"

text \<open>\<^verbatim>\<open>String.prototype.includes\<close>: \<open>sub\<close> occurs in \<open>s\<close> as a contiguous substring.\<close>

fun str_includes :: "string \<Rightarrow> string \<Rightarrow> bool" where
  "str_includes [] sub = (sub = [])"
| "str_includes (c # cs) sub = (take (length sub) (c # cs) = sub \<or> str_includes cs sub)"

section \<open>The objects of the module\<close>

text \<open>
  \<^verbatim>\<open>typeof window === "undefined"\<close> and the imported constant \<^verbatim>\<open>SERVER_URL\<close> are fixed
  for a process; they are the environment of every function.
\<close>

record env =
  has_window :: bool
  SERVER_URL :: string

text \<open>The options of \<^verbatim>\<open>new HttpLink({...})\<close> (lines 153-159); \<^verbatim>\<open>fetch\<close> is a fixed import.\<close>

record httpLink =
  uri :: string
  credentials :: string
  opts_credentials :: string
  link_headers :: "(string \<times> string nullable) list"

text \<open>
  A client instance: the options of \<^verbatim>\<open>new ApolloClient({...})\<close> (lines 131-162). The
  error link is the fixed handler \<open>onError_handler\<close> below. The cache is its content.
\<close>

record client =
  ssrMode :: bool
  link :: httpLink
  cache :: snapshot

text \<open>The request context of the framework, as far as the source reads it.\<close>

record request =
  headers :: "headers_obj nullable"

record innerCtx =
  req :: "request nullable"

record response =
  finished :: bool

record ctx =
  AppTree :: string
  ctx_ctx :: "innerCtx nullable"
  ctx_res :: "response nullable"
  ctx_apolloClient :: "nat option"

text \<open>The element \<^verbatim>\<open><AppTree pageProps={...} />\<close>.\<close>

record element =
  el_type :: string
  el_pageProps :: props

text \<open>
  Modelled from the spec: the toast collaborator \<^verbatim>\<open>ToastMessage\<close> and its severity kinds
  \<^verbatim>\<open>type\<close> are imported from the components of the application. The contract is: a
  function taking a severity kind and a message string. The source uses the kind
  \<^verbatim>\<open>type.ERROR\<close> only; a call is the event \<open>ToastMessage\<close> below.
\<close>

datatype toast_type = ERROR

text \<open>The calls the module makes to its collaborators.\<close>

datatype event =
    NewApolloClient nat
  | PageGetInitialProps ctx
  | ImportSsr
  | GetDataFromTree element
  | ConsoleError "jsval list"
  | HeadRewind
  | CacheExtract nat
  | ToastMessage toast_type string

text \<open>
  The mutable state: the client objects allocated so far (an instance is its index), the
  module-level variable \<^verbatim>\<open>apolloClient\<close> (line 12, \<open>None\<close> for \<^verbatim>\<open>null\<close>), and the trace.
\<close>

record world =
  clients :: "client list"
  apolloClient :: "nat option"
  trace :: "event list"

definition emit :: "event \<Rightarrow> world \<Rightarrow> world" where
  "emit e w = w\<lparr>trace := trace w @ [e]\<rparr>"

section \<open>The client factory\<close>

text \<open>
  \<^verbatim>\<open>new InMemoryCache().restore(initialState)\<close> is the library's: a snapshot replaces
  the empty content of the new cache, and a missing one leaves it empty.
\<close>

definition InMemoryCache_restore :: "snapshot nullable \<Rightarrow> snapshot" where
  "InMemoryCache_restore initialState = (case initialState of Val d \<Rightarrow> d | _ \<Rightarrow> [])"

text \<open>\<^verbatim>\<open>new ApolloClient(options)\<close>: a new object, distinct from every existing one.\<close>

definition new_ApolloClient :: "client \<Rightarrow> world \<Rightarrow> nat \<times> world" where
  "new_ApolloClient options w =
     (length (clients w),
      emit (NewApolloClient (length (clients w))) (w\<lparr>clients := clients w @ [options]\<rparr>))"

text \<open>
  \<^verbatim>\<open>createApolloClient(initialState = {}, headers)\<close>, lines 130-163: the options
  object first, then the construction. The default value replaces \<^verbatim>\<open>undefined\<close> only.
\<close>

definition apolloClient_options ::
  "env \<Rightarrow> snapshot nullable \<Rightarrow> headers_obj nullable \<Rightarrow> client" where
  "apolloClient_options e initialState hdrs =
     (let initialState' = (case initialState of Undefined \<Rightarrow> Val [] | s \<Rightarrow> s)
      in \<lparr>ssrMode = \<not> has_window e,
          link = \<lparr>uri = SERVER_URL e,
                  credentials = ''include'',
                  opts_credentials = ''include'',
                  link_headers = [(''cookie'', js_and hdrs (\<lambda>h. prop_of h ''cookie''))]\<rparr>,
          cache = InMemoryCache_restore initialState'\<rparr>)"

definition createApolloClient ::
  "env \<Rightarrow> snapshot nullable \<Rightarrow> headers_obj nullable \<Rightarrow> world \<Rightarrow> nat \<times> world" where
  "createApolloClient e initialState hdrs w =
     new_ApolloClient (apolloClient_options e initialState hdrs) w"

text \<open>\<^verbatim>\<open>initApolloClient(initialState, header)\<close>, lines 110-123.\<close>

definition initApolloClient ::
  "env \<Rightarrow> snapshot nullable \<Rightarrow> headers_obj nullable \<Rightarrow> world \<Rightarrow> nat \<times> world" where
  "initApolloClient e initialState header w =
     (if \<not> has_window e then createApolloClient e initialState header w
      else (case apolloClient w of
              None \<Rightarrow>
                (let (c, w') = createApolloClient e initialState Undefined w
                 in (c, w'\<lparr>apolloClient := Some c\<rparr>))
            | Some c \<Rightarrow> (c, w)))"

text \<open>A sequence of calls, each on the state the one before has left.\<close>

fun initApolloClient_calls ::
  "env \<Rightarrow> (snapshot nullable \<times> headers_obj nullable) list \<Rightarrow> world \<Rightarrow> nat list \<times> world" where
  "initApolloClient_calls e [] w = ([], w)"
| "initApolloClient_calls e ((initialState, header) # rest) w =
     (let (c, w') = initApolloClient e initialState header w;
          (cs, w'') = initApolloClient_calls e rest w'
      in (c # cs, w''))"

section \<open>The error link\<close>

text \<open>The GraphQL document of an operation, as far as the handler reads it.\<close>

datatype operationType = query_op | mutation_op | subscription_op

fun operationType_string :: "operationType \<Rightarrow> string" where
  "operationType_string query_op = ''query''"
| "operationType_string mutation_op = ''mutation''"
| "operationType_string subscription_op = ''subscription''"

text \<open>A definition of a document: only an operation definition has an \<^verbatim>\<open>operation\<close> field.\<close>

datatype definitionNode = OperationDefinition operationType | FragmentDefinition

fun definition_operation :: "definitionNode \<Rightarrow> string nullable" where
  "definition_operation (OperationDefinition t) = Val (operationType_string t)"
| "definition_operation FragmentDefinition = Undefined"

record document =
  definitions :: "definitionNode list"

record operation =
  query :: document

record graphQLError =
  message :: string

record errorResponse =
  graphQLErrors :: "graphQLError list option"
  networkError :: "jsval option"
  operation :: operation

text \<open>
  \<^verbatim>\<open>operation.query.definitions[0].operation === "mutation"\<close>: reading \<^verbatim>\<open>[0]\<close> of an
  empty array gives \<^verbatim>\<open>undefined\<close>, and the property read on it throws.
\<close>

definition first_is_mutation :: "operation \<Rightarrow> jsval + bool" where
  "first_is_mutation opn =
     (case definitions (query opn) of
        [] \<Rightarrow> Inl TypeError
      | d # _ \<Rightarrow> Inr (definition_operation d = Val ''mutation''))"

definition Variable_dollar :: string where
  "Variable_dollar = ''Variable '' @ [CHR 0x22] @ ''$''"

text \<open>The message of the toast for one GraphQL error (lines 142-144).\<close>

definition toast_text :: "string \<Rightarrow> string" where
  "toast_text m =
     (if str_includes m Variable_dollar then ''Error processing request please try again'' else m)"

text \<open>\<^verbatim>\<open>graphQLErrors.map(({ message }) => ToastMessage(type.ERROR, ...))\<close>.\<close>

fun toast_each :: "graphQLError list \<Rightarrow> world \<Rightarrow> world" where
  "toast_each [] w = w"
| "toast_each (g # gs) w = toast_each gs (emit (ToastMessage ERROR (toast_text (message g))) w)"

text \<open>
  The callback given to \<^verbatim>\<open>onError\<close>, lines 134-152. An array is truthy, also the empty
  one, so \<^verbatim>\<open>graphQLErrors && ...\<close> reads the document exactly when there is an array.
\<close>

definition onError_handler :: "errorResponse \<Rightarrow> world \<Rightarrow> (jsval + unit) \<times> world" where
  "onError_handler r w =
     (let second_if =
            (case first_is_mutation (operation r) of
               Inl err \<Rightarrow> (Inl err, w)
             | Inr True \<Rightarrow> (Inr (), emit (ToastMessage ERROR ''Network error'') w)
             | Inr False \<Rightarrow> (Inr (), w))
      in case graphQLErrors r of
           None \<Rightarrow> second_if
         | Some errs \<Rightarrow>
             (case first_is_mutation (operation r) of
                Inl err \<Rightarrow> (Inl err, w)
              | Inr True \<Rightarrow> (Inr (), toast_each errs w)
              | Inr False \<Rightarrow> second_if))"

section \<open>The page wrapper\<close>

text \<open>
  The wrapped page component, as far as the wrapper reads it: its own initial-data hook,
  if it declares one. The hook gets the request context and works on the cache of the
  client found there; it returns its properties or throws, and it may change the context
  (a redirect finishes the response).
\<close>

type_synonym page_hook = "ctx \<Rightarrow> snapshot \<Rightarrow> (jsval + props) \<times> ctx \<times> snapshot"

record pageComponent =
  getInitialProps :: "page_hook option"

text \<open>
  The server-rendering collaborator: the dynamic import of the module, which may reject,
  and \<^verbatim>\<open>getDataFromTree\<close>, which renders the element, fills the cache of the client in
  its properties and may reject with any value.
\<close>

record collaborators =
  import_ssr :: "jsval option"
  getDataFromTree :: "element \<Rightarrow> snapshot \<Rightarrow> jsval option \<times> snapshot"

definition client_cache :: "world \<Rightarrow> nat \<Rightarrow> snapshot" where
  "client_cache w c = cache (clients w ! c)"

definition set_client_cache :: "nat \<Rightarrow> snapshot \<Rightarrow> world \<Rightarrow> world" where
  "set_client_cache c d w = w\<lparr>clients := (clients w)[c := (clients w ! c)\<lparr>cache := d\<rparr>]\<rparr>"

text \<open>Lines 57-60: \<^verbatim>\<open>pageProps = {}\<close> unless the page declares a hook.\<close>

definition run_page_hook ::
  "pageComponent \<Rightarrow> ctx \<Rightarrow> nat \<Rightarrow> world \<Rightarrow> (jsval + props) \<times> ctx \<times> world" where
  "run_page_hook PageComponent cx c w =
     (case getInitialProps PageComponent of
        None \<Rightarrow> (Inr Map.empty, cx, w)
      | Some hook \<Rightarrow>
          (let (r, cx', d) = hook cx (client_cache w c)
           in (r, cx', set_client_cache c d (emit (PageGetInitialProps cx) w))))"

text \<open>The body of the \<^verbatim>\<open>try\<close> block, lines 73-77: the value it rejects with, if any.\<close>

definition try_block :: "collaborators \<Rightarrow> element \<Rightarrow> nat \<Rightarrow> world \<Rightarrow> jsval option \<times> world" where
  "try_block ext el c w =
     (case import_ssr ext of
        Some err \<Rightarrow> (Some err, emit ImportSsr w)
      | None \<Rightarrow>
          (let w1 = emit (GetDataFromTree el) (emit ImportSsr w);
               (r, d) = getDataFromTree ext el (client_cache w1 c)
           in (r, set_client_cache c d w1)))"

text \<open>Lines 71-88, the branch \<^verbatim>\<open>if (ssr)\<close>: \<^verbatim>\<open>try\<close>, \<^verbatim>\<open>catch\<close>, then \<^verbatim>\<open>Head.rewind()\<close>.\<close>

definition ssr_prefetch ::
  "collaborators \<Rightarrow> element \<Rightarrow> nat \<Rightarrow> world \<Rightarrow> (jsval + unit) \<times> world" where
  "ssr_prefetch ext el c w =
     (case try_block ext el c w of
        (None, w1) \<Rightarrow> (Inr (), emit HeadRewind w1)
      | (Some err, w1) \<Rightarrow>
          (case get_message err of
             Inl thrown \<Rightarrow> (Inl thrown, w1)
           | Inr m \<Rightarrow>
               (Inr (),
                emit HeadRewind
                  (emit (ConsoleError
                     [JStr (''Error while running '' @ [CHR 0x60] @ ''getDataFromTree'' @ [CHR 0x60]), m])
                     w1))))"

text \<open>Lines 91-97: extract the cache and return the merged properties.\<close>

definition extract_and_return :: "props \<Rightarrow> nat \<Rightarrow> world \<Rightarrow> (jsval + props) \<times> world" where
  "extract_and_return pageProps c w =
     (Inr (pageProps(''apolloState'' \<mapsto> JObj (client_cache w c))), emit (CacheExtract c) w)"

text \<open>\<^verbatim>\<open>ctx.res && ctx.res.finished\<close>.\<close>

definition res_finished :: "ctx \<Rightarrow> bool" where
  "res_finished cx = (case ctx_res cx of Val r \<Rightarrow> finished r | _ \<Rightarrow> False)"

text \<open>
  \<^verbatim>\<open>ctx && ctx.ctx && ctx.ctx.req && ctx.ctx.req.headers\<close>, line 53; \<^verbatim>\<open>ctx\<close> is an
  object, since line 48 has destructured it.
\<close>

definition request_headers :: "ctx \<Rightarrow> headers_obj nullable" where
  "request_headers cx = js_and (ctx_ctx cx) (\<lambda>i. js_and (req i) (\<lambda>r. headers r))"

text \<open>
  Lines 51-54, \<^verbatim>\<open>const apolloClient = (ctx.apolloClient = initApolloClient(null, headers))\<close>:
  the client, the context with the client attached, and the state after the call.
\<close>

definition attach_client :: "env \<Rightarrow> ctx \<Rightarrow> world \<Rightarrow> nat \<times> ctx \<times> world" where
  "attach_client e cx w =
     (let (c, w1) = initApolloClient e Null (request_headers cx) w
      in (c, cx\<lparr>ctx_apolloClient := Some c\<rparr>, w1))"

text \<open>
  Lines 62-97, what follows the hook of the wrapped component: \<open>appTree\<close> is the
  \<^verbatim>\<open>AppTree\<close> that line 48 has read, \<open>c\<close> the constant \<^verbatim>\<open>apolloClient\<close>, \<open>cx2\<close> the context
  as the wrapped hook has left it.
\<close>

definition after_page_hook ::
  "env \<Rightarrow> bool \<Rightarrow> collaborators \<Rightarrow> string \<Rightarrow> nat \<Rightarrow> props \<Rightarrow> ctx \<Rightarrow> world \<Rightarrow>
   (jsval + props) \<times> world" where
  "after_page_hook e ssr ext appTree c pageProps cx2 w2 =
     (if \<not> has_window e then
        (if res_finished cx2 then (Inr pageProps, w2)
         else if ssr then
           (case ssr_prefetch ext
                   \<lparr>el_type = appTree,
                    el_pageProps = pageProps(''apolloClient'' \<mapsto> JClient c)\<rparr> c w2 of
              (Inl thrown, w3) \<Rightarrow> (Inl thrown, w3)
            | (Inr u, w3) \<Rightarrow> extract_and_return pageProps c w3)
         else extract_and_return pageProps c w2)
      else extract_and_return pageProps c w2)"

text \<open>\<^verbatim>\<open>WithApollo.getInitialProps\<close>, lines 47-98.\<close>

definition WithApollo_getInitialProps ::
  "env \<Rightarrow> bool \<Rightarrow> pageComponent \<Rightarrow> collaborators \<Rightarrow> ctx \<Rightarrow> world \<Rightarrow> (jsval + props) \<times> world" where
  "WithApollo_getInitialProps e ssr PageComponent ext cx w =
     (let appTree = AppTree cx;
          (c, cx1, w1) = attach_client e cx w
      in case run_page_hook PageComponent cx1 c w1 of
           (Inl thrown, cx2, w2) \<Rightarrow> (Inl thrown, w2)
         | (Inr pageProps, cx2, w2) \<Rightarrow>
             after_page_hook e ssr ext appTree c pageProps cx2 w2)"

text \<open>
  \<^verbatim>\<open>withApollo(PageComponent, { ssr = true } = {})\<close>, lines 22-102: the hook is attached
  when \<^verbatim>\<open>ssr\<close> holds or the page declares a hook of its own.
\<close>

definition withApollo ::
  "env \<Rightarrow> pageComponent \<Rightarrow> bool option \<Rightarrow> collaborators \<Rightarrow>
   (ctx \<Rightarrow> world \<Rightarrow> (jsval + props) \<times> world) option" where
  "withApollo e PageComponent config ext =
     (let ssr = (case config of None \<Rightarrow> True | Some b \<Rightarrow> b)
      in if ssr \<or> getInitialProps PageComponent \<noteq> None
         then Some (WithApollo_getInitialProps e ssr PageComponent ext)
         else None)"

section \<open>Properties of the string test\<close>

text \<open>The recursive test of \<open>str_includes\<close> is the substring relation.\<close>

lemma str_includes_iff: "str_includes s sub \<longleftrightarrow> (\<exists>p q. s = p @ sub @ q)"
proof (induction s)
  case Nil
  then show ?case by auto
next
  case (Cons c cs)
  show ?case
  proof
    assume "str_includes (c # cs) sub"
    then consider "take (length sub) (c # cs) = sub" | "str_includes cs sub" by auto
    then show "\<exists>p q. c # cs = p @ sub @ q"
    proof cases
      case 1
      then have "c # cs = [] @ sub @ drop (length sub) (c # cs)"
        by (metis append_Nil append_take_drop_id)
      then show ?thesis by blast
    next
      case 2
      then obtain p q where "cs = p @ sub @ q" using Cons.IH by blast
      then have "c # cs = (c # p) @ sub @ q" by simp
      then show ?thesis by blast
    qed
  next
    assume "\<exists>p q. c # cs = p @ sub @ q"
    then obtain p q where pq: "c # cs = p @ sub @ q" by blast
    show "str_includes (c # cs) sub"
    proof (cases p)
      case Nil
      then have "take (length sub) (c # cs) = sub" using pq by simp
      then show ?thesis by simp
    next
      case (Cons a p')
      then have "cs = p' @ sub @ q" using pq by simp
      then have "str_includes cs sub" using Cons.IH by blast
      then show ?thesis by simp
    qed
  qed
qed

section \<open>Properties of the client factory\<close>

text \<open>Construction allocates the next index and appends the options object.\<close>

lemma createApolloClient_eq:
  "createApolloClient e st h w =
     (length (clients w),
      w\<lparr>clients := clients w @ [apolloClient_options e st h],
        trace := trace w @ [NewApolloClient (length (clients w))]\<rparr>)"
  by (simp add: createApolloClient_def new_ApolloClient_def emit_def)

lemma initApolloClient_server:
  "\<not> has_window e \<Longrightarrow>
   initApolloClient e st h w =
     (length (clients w),
      w\<lparr>clients := clients w @ [apolloClient_options e st h],
        trace := trace w @ [NewApolloClient (length (clients w))]\<rparr>)"
  by (simp add: initApolloClient_def createApolloClient_eq)

lemma initApolloClient_calls_server:
  "\<not> has_window e \<Longrightarrow>
   fst (initApolloClient_calls e calls w) = [length (clients w) ..< length (clients w) + length calls]
   \<and> length (clients (snd (initApolloClient_calls e calls w))) = length (clients w) + length calls"
proof (induction calls arbitrary: w)
  case Nil
  then show ?case by simp
next
  case (Cons a calls)
  obtain st h where a: "a = (st, h)" by (cases a)
  define w1 where "w1 = w\<lparr>clients := clients w @ [apolloClient_options e st h],
        trace := trace w @ [NewApolloClient (length (clients w))]\<rparr>"
  have c: "initApolloClient e st h w = (length (clients w), w1)"
    unfolding w1_def using Cons.prems by (rule initApolloClient_server)
  have l: "length (clients w1) = Suc (length (clients w))"
    by (simp add: w1_def)
  obtain cs w2 where r: "initApolloClient_calls e calls w1 = (cs, w2)"
    by (cases "initApolloClient_calls e calls w1")
  have ih: "fst (initApolloClient_calls e calls w1) =
      [length (clients w1) ..< length (clients w1) + length calls]
    \<and> length (clients (snd (initApolloClient_calls e calls w1))) =
      length (clients w1) + length calls"
    using Cons.prems by (rule Cons.IH)
  have cs: "cs = [Suc (length (clients w)) ..< Suc (length (clients w)) + length calls]"
    using ih by (simp only: r l fst_conv)
  have w2: "length (clients w2) = length (clients w) + length (a # calls)"
    using ih by (simp only: r l snd_conv) simp
  have u: "[length (clients w) ..< length (clients w) + length (a # calls)] =
      length (clients w) # cs"
    unfolding cs using upt_conv_Cons[of "length (clients w)" "length (clients w) + length (a # calls)"]
    by simp
  have "initApolloClient_calls e (a # calls) w = (length (clients w) # cs, w2)"
    by (simp add: a c r)
  then show ?case by (simp only: fst_conv snd_conv u w2 simp_thms)
qed

text \<open>Once the module variable holds a client, a browser call returns it and changes nothing.\<close>

lemma initApolloClient_calls_reuse:
  "has_window e \<Longrightarrow> apolloClient w = Some c \<Longrightarrow>
   initApolloClient_calls e calls w = (replicate (length calls) c, w)"
proof (induction calls)
  case Nil
  show ?case by simp
next
  case (Cons a calls)
  obtain st h where a: "a = (st, h)" by (cases a)
  have "initApolloClient e st h w = (c, w)"
    using Cons.prems by (simp add: initApolloClient_def)
  then show ?case using Cons by (simp add: a)
qed

text \<open>
  Claim C1. Without a window object, every call of \<open>initApolloClient\<close> constructs a new
  client: the instance returned is the next free index, so it is none of the existing
  ones, its options are those of \<open>createApolloClient\<close> for the given arguments, and its
  cache is restored from the given initial state. A sequence of calls returns pairwise
  different instances.
\<close>

theorem initApolloClient_server_fresh:
  assumes "\<not> has_window e"
  shows "initApolloClient e initialState header w =
           (length (clients w),
            w\<lparr>clients := clients w @ [apolloClient_options e initialState header],
              trace := trace w @ [NewApolloClient (length (clients w))]\<rparr>)
         \<and> cache (apolloClient_options e initialState header) = InMemoryCache_restore initialState
         \<and> fst (initApolloClient_calls e calls w) =
             [length (clients w) ..< length (clients w) + length calls]
         \<and> distinct (fst (initApolloClient_calls e calls w))"
proof -
  have 1: "initApolloClient e initialState header w =
           (length (clients w),
            w\<lparr>clients := clients w @ [apolloClient_options e initialState header],
              trace := trace w @ [NewApolloClient (length (clients w))]\<rparr>)"
    using assms by (rule initApolloClient_server)
  have 2: "cache (apolloClient_options e initialState header) = InMemoryCache_restore initialState"
    by (cases initialState) (simp_all add: apolloClient_options_def InMemoryCache_restore_def)
  have 3: "fst (initApolloClient_calls e calls w) =
             [length (clients w) ..< length (clients w) + length calls]"
    using initApolloClient_calls_server[OF assms] by blast
  have 4: "distinct (fst (initApolloClient_calls e calls w))"
    unfolding 3 by (rule distinct_upt)
  from 1 2 3 4 show ?thesis by blast
qed

theorem initApolloClient_server_fresh_witness:
  "\<not> has_window \<lparr>has_window = False, SERVER_URL = ''/graphql''\<rparr>
   \<and> fst (initApolloClient \<lparr>has_window = False, SERVER_URL = ''/graphql''\<rparr> Null Undefined
        \<lparr>clients = [], apolloClient = None, trace = []\<rparr>) = 0
   \<and> fst (initApolloClient_calls \<lparr>has_window = False, SERVER_URL = ''/graphql''\<rparr>
        [(Null, Undefined), (Val [(''ROOT_QUERY'', JNull)], Null)]
        \<lparr>clients = [], apolloClient = None, trace = []\<rparr>) = [0, 1]"
  using initApolloClient_server_fresh
    [of "\<lparr>has_window = False, SERVER_URL = ''/graphql''\<rparr>" Null Undefined
        "\<lparr>clients = [], apolloClient = None, trace = []\<rparr>"
        "[(Null, Undefined), (Val [(''ROOT_QUERY'', JNull)], Null)]"]
  by (simp add: initApolloClient_def createApolloClient_def new_ApolloClient_def emit_def)

text \<open>
  Claim C2. With a window object and the module variable still \<^verbatim>\<open>null\<close>, the first call of
  a sequence constructs one client, seeded with its initial state, and stores it in the
  module variable; every call of the sequence returns that instance, and no later call
  constructs anything: the final state is the state after the single construction.
\<close>

theorem initApolloClient_browser_singleton:
  assumes "has_window e" and "apolloClient w = None"
  shows "initApolloClient_calls e ((initialState, header) # rest) w =
     (replicate (Suc (length rest)) (length (clients w)),
      w\<lparr>clients := clients w @ [apolloClient_options e initialState Undefined],
        apolloClient := Some (length (clients w)),
        trace := trace w @ [NewApolloClient (length (clients w))]\<rparr>)"
proof -
  define w1 where "w1 = w\<lparr>clients := clients w @ [apolloClient_options e initialState Undefined],
        apolloClient := Some (length (clients w)),
        trace := trace w @ [NewApolloClient (length (clients w))]\<rparr>"
  have first: "initApolloClient e initialState header w = (length (clients w), w1)"
    using assms by (simp add: initApolloClient_def createApolloClient_eq w1_def)
  have "apolloClient w1 = Some (length (clients w))"
    by (simp add: w1_def)
  with assms(1) have "initApolloClient_calls e rest w1 =
      (replicate (length rest) (length (clients w)), w1)"
    by (rule initApolloClient_calls_reuse)
  with first show ?thesis
    by (simp add: w1_def)
qed

theorem initApolloClient_browser_singleton_witness:
  "has_window \<lparr>has_window = True, SERVER_URL = ''/graphql''\<rparr>
   \<and> apolloClient \<lparr>clients = [], apolloClient = None, trace = []\<rparr> = None
   \<and> fst (initApolloClient_calls \<lparr>has_window = True, SERVER_URL = ''/graphql''\<rparr>
        [(Val [(''ROOT_QUERY'', JNull)], Undefined), (Undefined, Undefined), (Null, Null)]
        \<lparr>clients = [], apolloClient = None, trace = []\<rparr>) = [0, 0, 0]
   \<and> trace (snd (initApolloClient_calls \<lparr>has_window = True, SERVER_URL = ''/graphql''\<rparr>
        [(Val [(''ROOT_QUERY'', JNull)], Undefined), (Undefined, Undefined), (Null, Null)]
        \<lparr>clients = [], apolloClient = None, trace = []\<rparr>)) = [NewApolloClient 0]"
  using initApolloClient_browser_singleton
    [of "\<lparr>has_window = True, SERVER_URL = ''/graphql''\<rparr>"
        "\<lparr>clients = [], apolloClient = None, trace = []\<rparr>"
        "Val [(''ROOT_QUERY'', JNull)]" Undefined "[(Undefined, Undefined), (Null, Null)]"]
  by (simp add: initApolloClient_def createApolloClient_def new_ApolloClient_def emit_def)

text \<open>
  Claim C9. Two inbound header objects with the same \<^verbatim>\<open>cookie\<close> field give the same
  client, hence the same transport headers: the headers of the HTTP link have the single
  key \<^verbatim>\<open>cookie\<close>, whose value is the inbound cookie, and nothing else of the inbound
  headers is read.
\<close>

theorem createApolloClient_cookie_only:
  assumes "h ''cookie'' = h' ''cookie''"
  shows "createApolloClient e initialState (Val h) w = createApolloClient e initialState (Val h') w
    \<and> link_headers (link (apolloClient_options e initialState (Val h))) =
        [(''cookie'', prop_of h ''cookie'')]
    \<and> initApolloClient e initialState (Val h) w = initApolloClient e initialState (Val h') w"
proof -
  have o: "apolloClient_options e initialState (Val h) = apolloClient_options e initialState (Val h')"
    using assms by (simp add: apolloClient_options_def js_and_def prop_of_def)
  have 1: "createApolloClient e initialState (Val h) w = createApolloClient e initialState (Val h') w"
    by (simp only: createApolloClient_def o)
  have 2: "link_headers (link (apolloClient_options e initialState (Val h))) =
        [(''cookie'', prop_of h ''cookie'')]"
    by (simp add: apolloClient_options_def js_and_def)
  have 3: "initApolloClient e initialState (Val h) w = initApolloClient e initialState (Val h') w"
    by (simp only: initApolloClient_def 1)
  from 1 2 3 show ?thesis by blast
qed

theorem createApolloClient_cookie_only_witness:
  "[''cookie'' \<mapsto> ''sid=1'', ''authorization'' \<mapsto> ''Bearer t''] ''cookie'' =
     [''cookie'' \<mapsto> ''sid=1'', ''user-agent'' \<mapsto> ''curl''] ''cookie''
   \<and> createApolloClient \<lparr>has_window = False, SERVER_URL = ''/graphql''\<rparr> Null
        (Val [''cookie'' \<mapsto> ''sid=1'', ''authorization'' \<mapsto> ''Bearer t''])
        \<lparr>clients = [], apolloClient = None, trace = []\<rparr> =
      createApolloClient \<lparr>has_window = False, SERVER_URL = ''/graphql''\<rparr> Null
        (Val [''cookie'' \<mapsto> ''sid=1'', ''user-agent'' \<mapsto> ''curl''])
        \<lparr>clients = [], apolloClient = None, trace = []\<rparr>
   \<and> link_headers (link (apolloClient_options \<lparr>has_window = False, SERVER_URL = ''/graphql''\<rparr> Null
        (Val [''cookie'' \<mapsto> ''sid=1'', ''authorization'' \<mapsto> ''Bearer t'']))) =
      [(''cookie'', Val ''sid=1'')]"
proof -
  have c: "[''cookie'' \<mapsto> ''sid=1'', ''authorization'' \<mapsto> ''Bearer t''] ''cookie'' =
     [''cookie'' \<mapsto> ''sid=1'', ''user-agent'' \<mapsto> ''curl''] ''cookie''"
    by simp
  show ?thesis
    using c createApolloClient_cookie_only
       [of "[''cookie'' \<mapsto> ''sid=1'', ''authorization'' \<mapsto> ''Bearer t'']"
           "[''cookie'' \<mapsto> ''sid=1'', ''user-agent'' \<mapsto> ''curl'']"
           "\<lparr>has_window = False, SERVER_URL = ''/graphql''\<rparr>" Null
           "\<lparr>clients = [], apolloClient = None, trace = []\<rparr>"]
    by (simp add: prop_of_def)
qed

section \<open>Properties of the error link\<close>

text \<open>The toasts for a list of GraphQL errors are appended to the trace in order.\<close>

lemma toast_each_trace:
  "toast_each gs w =
     w\<lparr>trace := trace w @ map (\<lambda>g. ToastMessage ERROR (toast_text (message g))) gs\<rparr>"
proof (induction gs arbitrary: w)
  case Nil
  show ?case by simp
next
  case (Cons g gs)
  have "toast_each (g # gs) w = toast_each gs (emit (ToastMessage ERROR (toast_text (message g))) w)"
    by simp
  also have "\<dots> = (emit (ToastMessage ERROR (toast_text (message g))) w)
      \<lparr>trace := trace (emit (ToastMessage ERROR (toast_text (message g))) w)
          @ map (\<lambda>g. ToastMessage ERROR (toast_text (message g))) gs\<rparr>"
    by (rule Cons.IH)
  also have "\<dots> =
      w\<lparr>trace := trace w @ map (\<lambda>g. ToastMessage ERROR (toast_text (message g))) (g # gs)\<rparr>"
    by (simp add: emit_def)
  finally show ?case .
qed

lemma first_is_mutation_Cons:
  "first_is_mutation \<lparr>query = \<lparr>definitions = d # ds\<rparr>\<rparr> = Inr (d = OperationDefinition mutation_op)"
proof (cases d)
  case (OperationDefinition t)
  then show ?thesis by (cases t) (simp_all add: first_is_mutation_def)
next
  case FragmentDefinition
  then show ?thesis by (simp add: first_is_mutation_def)
qed

lemma first_is_mutation_Nil:
  "first_is_mutation \<lparr>query = \<lparr>definitions = []\<rparr>\<rparr> = Inl TypeError"
  by (simp add: first_is_mutation_def)

lemma onError_handler_mutation_errors:
  "onError_handler
     \<lparr>graphQLErrors = Some errs, networkError = ne,
      operation = \<lparr>query = \<lparr>definitions = OperationDefinition mutation_op # ds\<rparr>\<rparr>\<rparr> w =
   (Inr (), w\<lparr>trace := trace w @ map (\<lambda>g. ToastMessage ERROR (toast_text (message g))) errs\<rparr>)"
  by (simp add: onError_handler_def first_is_mutation_Cons toast_each_trace)

lemma onError_handler_mutation_no_errors:
  "onError_handler
     \<lparr>graphQLErrors = None, networkError = ne,
      operation = \<lparr>query = \<lparr>definitions = OperationDefinition mutation_op # ds\<rparr>\<rparr>\<rparr> w =
   (Inr (), w\<lparr>trace := trace w @ [ToastMessage ERROR ''Network error'']\<rparr>)"
  by (simp add: onError_handler_def first_is_mutation_Cons emit_def)

lemma onError_handler_not_mutation:
  "d \<noteq> OperationDefinition mutation_op \<Longrightarrow>
   onError_handler
     \<lparr>graphQLErrors = g, networkError = ne,
      operation = \<lparr>query = \<lparr>definitions = d # ds\<rparr>\<rparr>\<rparr> w = (Inr (), w)"
  by (cases g) (simp_all add: onError_handler_def first_is_mutation_Cons)

lemma onError_handler_empty_document:
  "onError_handler
     \<lparr>graphQLErrors = g, networkError = ne,
      operation = \<lparr>query = \<lparr>definitions = []\<rparr>\<rparr>\<rparr> w = (Inl TypeError, w)"
  by (cases g) (simp_all add: onError_handler_def first_is_mutation_Nil)

text \<open>
  When the document begins with the mutation and the error event carries GraphQL errors,
  the handler shows one toast for each error, in order: the generic text when the message
  contains \<^verbatim>\<open>Variable "$\<close>, the message itself otherwise.
\<close>

lemma onError_mutation_first_toast_message:
  "onError_handler
     \<lparr>graphQLErrors = Some errs, networkError = ne,
      operation = \<lparr>query = \<lparr>definitions = OperationDefinition mutation_op # ds\<rparr>\<rparr>\<rparr> w =
   (Inr (),
    w\<lparr>trace := trace w @
       map (\<lambda>g. ToastMessage ERROR
                  (if str_includes (message g) (''Variable '' @ [CHR 0x22] @ ''$'')
                   then ''Error processing request please try again''
                   else message g)) errs\<rparr>)"
  using onError_handler_mutation_errors [of errs ne ds w]
  by (simp add: toast_text_def Variable_dollar_def)

lemma onError_mutation_first_toast_message_example:
  "trace (snd (onError_handler
     \<lparr>graphQLErrors =
        Some [\<lparr>message = ''Variable '' @ [CHR 0x22] @ ''$id'' @ [CHR 0x22] @ '' was not provided''\<rparr>,
              \<lparr>message = ''Email already taken''\<rparr>],
      networkError = None,
      operation = \<lparr>query = \<lparr>definitions = [OperationDefinition mutation_op]\<rparr>\<rparr>\<rparr>
     \<lparr>clients = [], apolloClient = None, trace = []\<rparr>)) =
   [ToastMessage ERROR ''Error processing request please try again'',
    ToastMessage ERROR ''Email already taken'']"
  using onError_mutation_first_toast_message
    [of "[\<lparr>message = ''Variable '' @ [CHR 0x22] @ ''$id'' @ [CHR 0x22] @ '' was not provided''\<rparr>,
          \<lparr>message = ''Email already taken''\<rparr>]"
        None "[]" "\<lparr>clients = [], apolloClient = None, trace = []\<rparr>"]
  by simp

text \<open>
  Claim C5 fails on the code for a mutation whose document does not begin with the
  mutation definition. The handler takes the operation type from the first definition
  of the document; when that is a fragment, which has no operation type, neither test
  for a mutation holds, and the GraphQL errors of the mutation get no toast: neither the
  generic text for an unresolved variable nor the server's message.
\<close>

theorem onError_fragment_first_mutation_no_toast:
  "onError_handler
     \<lparr>graphQLErrors = Some [\<lparr>message = ''Email already taken''\<rparr>],
      networkError = None,
      operation = \<lparr>query = \<lparr>definitions =
        [FragmentDefinition, OperationDefinition mutation_op]\<rparr>\<rparr>\<rparr>
     \<lparr>clients = [], apolloClient = None, trace = []\<rparr> =
     (Inr (), \<lparr>clients = [], apolloClient = None, trace = []\<rparr>)
   \<and> onError_handler
     \<lparr>graphQLErrors =
        Some [\<lparr>message = ''Variable '' @ [CHR 0x22] @ ''$id'' @ [CHR 0x22] @ '' was not provided''\<rparr>],
      networkError = None,
      operation = \<lparr>query = \<lparr>definitions =
        [FragmentDefinition, OperationDefinition mutation_op]\<rparr>\<rparr>\<rparr>
     \<lparr>clients = [], apolloClient = None, trace = []\<rparr> =
     (Inr (), \<lparr>clients = [], apolloClient = None, trace = []\<rparr>)"
  by (simp add: onError_handler_def first_is_mutation_def)

text \<open>
  Claim C6, as stated, fails: with GraphQL errors present the handler returns after the
  toasts for them, so a transport-level failure that comes in the same event gets no
  toast of its own.
\<close>

theorem onError_mutation_toast_count_counterexample:
  "trace (snd (onError_handler
     \<lparr>graphQLErrors = Some [\<lparr>message = ''Forbidden''\<rparr>],
      networkError = Some (JObj [(''statusCode'', JNum 403)]),
      operation = \<lparr>query = \<lparr>definitions = [OperationDefinition mutation_op]\<rparr>\<rparr>\<rparr>
     \<lparr>clients = [], apolloClient = None, trace = []\<rparr>)) = [ToastMessage ERROR ''Forbidden'']"
  by (simp add: onError_handler_def first_is_mutation_def emit_def toast_text_def
      Variable_dollar_def)

text \<open>
  Claim C6, amended. For a mutation whose document begins with the mutation definition:
  an error event that carries GraphQL errors gives exactly one toast for each of
  them and no other toast, whether or not a network error comes with them; an event that
  carries no array of GraphQL errors gives exactly one toast, \<^verbatim>\<open>Network error\<close>.
\<close>

theorem onError_mutation_toast_count:
  assumes "errs \<noteq> []"
  shows "(\<exists>ts. snd (onError_handler
        \<lparr>graphQLErrors = Some errs, networkError = ne,
         operation = \<lparr>query = \<lparr>definitions = OperationDefinition mutation_op # ds\<rparr>\<rparr>\<rparr> w) =
          w\<lparr>trace := trace w @ ts\<rparr>
        \<and> length ts = length errs
        \<and> ts = map (\<lambda>g. ToastMessage ERROR (toast_text (message g))) errs)
   \<and> snd (onError_handler
        \<lparr>graphQLErrors = None, networkError = ne,
         operation = \<lparr>query = \<lparr>definitions = OperationDefinition mutation_op # ds\<rparr>\<rparr>\<rparr> w) =
       w\<lparr>trace := trace w @ [ToastMessage ERROR ''Network error'']\<rparr>"
proof -
  let ?ts = "map (\<lambda>g. ToastMessage ERROR (toast_text (message g))) errs"
  have with_array: "snd (onError_handler
        \<lparr>graphQLErrors = Some errs, networkError = ne,
         operation = \<lparr>query = \<lparr>definitions = OperationDefinition mutation_op # ds\<rparr>\<rparr>\<rparr> w) =
          w\<lparr>trace := trace w @ ?ts\<rparr>"
    by (simp add: onError_handler_mutation_errors)
  have "length ?ts = length errs"
    by simp
  with with_array have first: "\<exists>ts. snd (onError_handler
        \<lparr>graphQLErrors = Some errs, networkError = ne,
         operation = \<lparr>query = \<lparr>definitions = OperationDefinition mutation_op # ds\<rparr>\<rparr>\<rparr> w) =
          w\<lparr>trace := trace w @ ts\<rparr>
        \<and> length ts = length errs
        \<and> ts = map (\<lambda>g. ToastMessage ERROR (toast_text (message g))) errs"
    by blast
  have second: "snd (onError_handler
        \<lparr>graphQLErrors = None, networkError = ne,
         operation = \<lparr>query = \<lparr>definitions = OperationDefinition mutation_op # ds\<rparr>\<rparr>\<rparr> w) =
       w\<lparr>trace := trace w @ [ToastMessage ERROR ''Network error'']\<rparr>"
    by (simp add: onError_handler_mutation_no_errors)
  from first second show ?thesis by blast
qed

theorem onError_mutation_toast_count_witness:
  "[\<lparr>message = ''Forbidden''\<rparr>, \<lparr>message = ''Email already taken''\<rparr>] \<noteq> []
   \<and> trace (snd (onError_handler
        \<lparr>graphQLErrors = Some [\<lparr>message = ''Forbidden''\<rparr>, \<lparr>message = ''Email already taken''\<rparr>],
         networkError = Some (JObj [(''statusCode'', JNum 403)]),
         operation = \<lparr>query = \<lparr>definitions = [OperationDefinition mutation_op]\<rparr>\<rparr>\<rparr>
        \<lparr>clients = [], apolloClient = None, trace = []\<rparr>)) =
      [ToastMessage ERROR ''Forbidden'', ToastMessage ERROR ''Email already taken'']
   \<and> trace (snd (onError_handler
        \<lparr>graphQLErrors = None,
         networkError = Some (JObj [(''statusCode'', JNum 403)]),
         operation = \<lparr>query = \<lparr>definitions = [OperationDefinition mutation_op]\<rparr>\<rparr>\<rparr>
        \<lparr>clients = [], apolloClient = None, trace = []\<rparr>)) =
      [ToastMessage ERROR ''Network error'']"
proof -
  have h: "[\<lparr>message = ''Forbidden''\<rparr>, \<lparr>message = ''Email already taken''\<rparr>] \<noteq> []"
    by simp
  from onError_mutation_toast_count
    [OF h, of "Some (JObj [(''statusCode'', JNum 403)])" "[]"
       "\<lparr>clients = [], apolloClient = None, trace = []\<rparr>"]
  show ?thesis
    by (auto simp add: toast_text_def Variable_dollar_def)
qed

text \<open>
  Claim C7. When the document does not begin with a mutation definition (it begins with
  a query, a subscription or a fragment, or it is empty), the handler fires no toast and
  leaves the state as it was, whatever the event carries: GraphQL errors, a network
  error, both or neither. For a document that begins with a query it returns normally.
\<close>

theorem onError_query_no_toast:
  assumes "\<forall>ds. definitions (query (operation r)) \<noteq> OperationDefinition mutation_op # ds"
  shows "snd (onError_handler r w) = w
    \<and> (definitions (query (operation r)) = OperationDefinition query_op # qs
         \<longrightarrow> onError_handler r w = (Inr (), w))"
proof -
  have r: "r = \<lparr>graphQLErrors = graphQLErrors r, networkError = networkError r,
      operation = \<lparr>query = \<lparr>definitions = definitions (query (operation r))\<rparr>\<rparr>\<rparr>"
    by simp
  show ?thesis
  proof (cases "definitions (query (operation r))")
    case Nil
    then have "onError_handler r w = (Inl TypeError, w)"
      using r onError_handler_empty_document by metis
    then show ?thesis using Nil by simp
  next
    case (Cons d ds)
    then have "d \<noteq> OperationDefinition mutation_op"
      using assms by simp
    then have "onError_handler r w = (Inr (), w)"
      using r Cons onError_handler_not_mutation by metis
    then show ?thesis by simp
  qed
qed

theorem onError_query_no_toast_witness:
  "(\<forall>ds. definitions (query (operation
      \<lparr>graphQLErrors = Some [\<lparr>message = ''Not found''\<rparr>],
       networkError = Some (JObj [(''statusCode'', JNum 500)]),
       operation = \<lparr>query = \<lparr>definitions = [OperationDefinition query_op]\<rparr>\<rparr>\<rparr>)) \<noteq>
     OperationDefinition mutation_op # ds)
   \<and> onError_handler
      \<lparr>graphQLErrors = Some [\<lparr>message = ''Not found''\<rparr>],
       networkError = Some (JObj [(''statusCode'', JNum 500)]),
       operation = \<lparr>query = \<lparr>definitions = [OperationDefinition query_op]\<rparr>\<rparr>\<rparr>
      \<lparr>clients = [], apolloClient = None, trace = [ImportSsr]\<rparr> =
     (Inr (), \<lparr>clients = [], apolloClient = None, trace = [ImportSsr]\<rparr>)"
  using onError_query_no_toast
    [of "\<lparr>graphQLErrors = Some [\<lparr>message = ''Not found''\<rparr>],
       networkError = Some (JObj [(''statusCode'', JNum 500)]),
       operation = \<lparr>query = \<lparr>definitions = [OperationDefinition query_op]\<rparr>\<rparr>\<rparr>"
      "\<lparr>clients = [], apolloClient = None, trace = [ImportSsr]\<rparr>" "[]"]
  by simp

text \<open>
  Claim C10. The handler reads the document only through its first definition. With an
  empty list of definitions the read throws and nothing else happens; with a non-empty
  list the handler returns normally, and what it does is the same for every tail of the
  list, so it is decided by the first definition alone.
\<close>

theorem onError_first_definition_only:
  "onError_handler
     \<lparr>graphQLErrors = g, networkError = ne,
      operation = \<lparr>query = \<lparr>definitions = []\<rparr>\<rparr>\<rparr> w = (Inl TypeError, w)
   \<and> fst (onError_handler
     \<lparr>graphQLErrors = g, networkError = ne,
      operation = \<lparr>query = \<lparr>definitions = d # ds\<rparr>\<rparr>\<rparr> w) = Inr ()
   \<and> onError_handler
     \<lparr>graphQLErrors = g, networkError = ne,
      operation = \<lparr>query = \<lparr>definitions = d # ds\<rparr>\<rparr>\<rparr> w =
     onError_handler
     \<lparr>graphQLErrors = g, networkError = ne,
      operation = \<lparr>query = \<lparr>definitions = d # ds'\<rparr>\<rparr>\<rparr> w"
proof -
  have 1: "onError_handler
     \<lparr>graphQLErrors = g, networkError = ne,
      operation = \<lparr>query = \<lparr>definitions = []\<rparr>\<rparr>\<rparr> w = (Inl TypeError, w)"
    by (rule onError_handler_empty_document)
  have 2: "\<And>xs. onError_handler
     \<lparr>graphQLErrors = g, networkError = ne,
      operation = \<lparr>query = \<lparr>definitions = d # xs\<rparr>\<rparr>\<rparr> w =
     onError_handler
     \<lparr>graphQLErrors = g, networkError = ne,
      operation = \<lparr>query = \<lparr>definitions = [d]\<rparr>\<rparr>\<rparr> w"
    by (cases g) (simp_all add: onError_handler_def first_is_mutation_Cons)
  have 3: "fst (onError_handler
     \<lparr>graphQLErrors = g, networkError = ne,
      operation = \<lparr>query = \<lparr>definitions = d # ds\<rparr>\<rparr>\<rparr> w) = Inr ()"
    by (cases g) (simp_all add: onError_handler_def first_is_mutation_Cons split: bool.splits)
  from 1 3 2[of ds] 2[of ds'] show ?thesis by simp
qed


section \<open>Properties of the page wrapper\<close>

text \<open>With the default configuration the wrapper always carries the hook.\<close>

lemma withApollo_default_attaches_hook:
  "withApollo e PageComponent None ext =
     Some (WithApollo_getInitialProps e True PageComponent ext)"
  by (simp add: withApollo_def)

lemma trace_emit: "trace (emit ev w) = trace w @ [ev]"
  by (simp add: emit_def)

text \<open>Every step of the hook only appends to the trace.\<close>

lemma trace_set_client_cache: "trace (set_client_cache c d w) = trace w"
  by (simp add: set_client_cache_def)

lemma run_page_hook_trace:
  assumes "run_page_hook PageComponent cx c w = (r, cx', w')"
  shows "trace w' = trace w @
    (case getInitialProps PageComponent of None \<Rightarrow> [] | Some hook \<Rightarrow> [PageGetInitialProps cx])"
proof (cases "getInitialProps PageComponent")
  case None
  then show ?thesis using assms by (simp add: run_page_hook_def)
next
  case (Some hook)
  obtain r0 cx0 d where h: "hook cx (client_cache w c) = (r0, cx0, d)"
    by (cases "hook cx (client_cache w c)")
  then have "w' = set_client_cache c d (emit (PageGetInitialProps cx) w)"
    using assms Some by (simp add: run_page_hook_def)
  then show ?thesis using Some by (simp add: trace_set_client_cache trace_emit)
qed

lemma try_block_trace:
  assumes "try_block ext el c w = (r, w')"
  shows "\<exists>evs. trace w' = trace w @ evs"
proof (cases "import_ssr ext")
  case None
  obtain r0 d where g: "getDataFromTree ext el
      (client_cache (emit (GetDataFromTree el) (emit ImportSsr w)) c) = (r0, d)"
    by (cases "getDataFromTree ext el
      (client_cache (emit (GetDataFromTree el) (emit ImportSsr w)) c)")
  then have "w' = set_client_cache c d (emit (GetDataFromTree el) (emit ImportSsr w))"
    using assms None by (simp add: try_block_def Let_def)
  then show ?thesis by (simp add: trace_set_client_cache trace_emit)
next
  case (Some err)
  then have "w' = emit ImportSsr w" using assms by (simp add: try_block_def)
  then show ?thesis by (simp add: trace_emit)
qed

lemma ssr_prefetch_trace:
  assumes "ssr_prefetch ext el c w = (r, w')"
  shows "\<exists>evs. trace w' = trace w @ evs"
proof -
  obtain f w1 where t: "try_block ext el c w = (f, w1)"
    by (cases "try_block ext el c w")
  then obtain evs where e: "trace w1 = trace w @ evs"
    using try_block_trace by blast
  show ?thesis
  proof (cases f)
    case None
    then have "w' = emit HeadRewind w1" using assms t by (simp add: ssr_prefetch_def)
    then show ?thesis using e by (simp add: trace_emit)
  next
    case (Some err)
    show ?thesis
    proof (cases "get_message err")
      case (Inl thrown)
      then have "w' = w1" using assms t Some by (simp add: ssr_prefetch_def)
      then show ?thesis using e by blast
    next
      case (Inr m)
      then have "trace w' = trace w1 @
          [ConsoleError [JStr (''Error while running '' @ [CHR 0x60] @ ''getDataFromTree'' @ [CHR 0x60]), m],
           HeadRewind]"
        using assms t Some by (auto simp add: ssr_prefetch_def trace_emit)
      then show ?thesis using e by simp
    qed
  qed
qed

lemma extract_and_return_trace:
  "trace (snd (extract_and_return pageProps c w)) = trace w @ [CacheExtract c]"
  by (simp add: extract_and_return_def trace_emit)

lemma getInitialProps_trace_extends:
  assumes "initApolloClient e Null (request_headers cx) w = (c, w1)"
  shows "\<exists>rest. trace (snd (WithApollo_getInitialProps e ssr PageComponent ext cx w)) =
     trace w1 @
     (case getInitialProps PageComponent of
        None \<Rightarrow> []
      | Some hook \<Rightarrow> [PageGetInitialProps (cx\<lparr>ctx_apolloClient := Some c\<rparr>)]) @ rest"
proof -
  let ?cx1 = "cx\<lparr>ctx_apolloClient := Some c\<rparr>"
  let ?hook_evs = "case getInitialProps PageComponent of
        None \<Rightarrow> []
      | Some hook \<Rightarrow> [PageGetInitialProps ?cx1]"
  obtain r cx2 w2 where h: "run_page_hook PageComponent ?cx1 c w1 = (r, cx2, w2)"
    by (cases "run_page_hook PageComponent ?cx1 c w1")
  then have t2: "trace w2 = trace w1 @ ?hook_evs"
    by (rule run_page_hook_trace)
  show ?thesis
  proof (cases r)
    case (Inl thrown)
    then have "snd (WithApollo_getInitialProps e ssr PageComponent ext cx w) = w2"
      using assms h by (simp add: WithApollo_getInitialProps_def attach_client_def
          after_page_hook_def)
    then show ?thesis using t2 by simp
  next
    case (Inr pageProps)
    let ?el = "\<lparr>el_type = AppTree cx,
                el_pageProps = pageProps(''apolloClient'' \<mapsto> JClient c)\<rparr>"
    obtain r3 w3 where p: "ssr_prefetch ext ?el c w2 = (r3, w3)"
      by (cases "ssr_prefetch ext ?el c w2")
    then obtain evs where t3: "trace w3 = trace w2 @ evs"
      using ssr_prefetch_trace by blast
    consider (fin) "\<not> has_window e" "res_finished cx2"
      | (thrown) "\<not> has_window e" "\<not> res_finished cx2" "ssr" "\<exists>x. r3 = Inl x"
      | (pre) "\<not> has_window e" "\<not> res_finished cx2" "ssr" "\<exists>u. r3 = Inr u"
      | (plain) "has_window e \<or> (\<not> res_finished cx2 \<and> \<not> ssr)"
      by (cases r3) auto
    then show ?thesis
    proof cases
      case fin
      then have "snd (WithApollo_getInitialProps e ssr PageComponent ext cx w) = w2"
        using assms h Inr by (simp add: WithApollo_getInitialProps_def attach_client_def
          after_page_hook_def)
      then show ?thesis using t2 by simp
    next
      case thrown
      then have "snd (WithApollo_getInitialProps e ssr PageComponent ext cx w) = w3"
        using assms h Inr p by (auto simp add: WithApollo_getInitialProps_def attach_client_def
          after_page_hook_def)
      then show ?thesis using t2 t3 by simp
    next
      case pre
      then have "snd (WithApollo_getInitialProps e ssr PageComponent ext cx w) =
          snd (extract_and_return pageProps c w3)"
        using assms h Inr p by (auto simp add: WithApollo_getInitialProps_def attach_client_def
          after_page_hook_def)
      then show ?thesis using t2 t3 by (simp add: extract_and_return_trace)
    next
      case plain
      then have "snd (WithApollo_getInitialProps e ssr PageComponent ext cx w) =
          snd (extract_and_return pageProps c w2)"
        using assms h Inr by (auto simp add: WithApollo_getInitialProps_def attach_client_def
          after_page_hook_def)
      then show ?thesis using t2 by (simp add: extract_and_return_trace)
    qed
  qed
qed

text \<open>
  Claim C3, as stated, fails: in a browser whose module variable already holds a
  client, the hook constructs nothing and attaches the stored instance, the one the
  earlier call has returned.
\<close>

theorem getInitialProps_fresh_client_counterexample:
  "fst (initApolloClient \<lparr>has_window = True, SERVER_URL = ''/graphql''\<rparr> Undefined Undefined
          \<lparr>clients = [], apolloClient = None, trace = []\<rparr>) = 0
   \<and> trace (snd (initApolloClient \<lparr>has_window = True, SERVER_URL = ''/graphql''\<rparr> Undefined Undefined
          \<lparr>clients = [], apolloClient = None, trace = []\<rparr>)) = [NewApolloClient 0]
   \<and> trace (snd (WithApollo_getInitialProps \<lparr>has_window = True, SERVER_URL = ''/graphql''\<rparr> True
          \<lparr>getInitialProps = Some (\<lambda>cx d. (Inr Map.empty, cx, d))\<rparr>
          \<lparr>import_ssr = None, getDataFromTree = (\<lambda>el d. (None, d))\<rparr>
          \<lparr>AppTree = ''App'', ctx_ctx = Undefined, ctx_res = Undefined, ctx_apolloClient = None\<rparr>
          (snd (initApolloClient \<lparr>has_window = True, SERVER_URL = ''/graphql''\<rparr> Undefined Undefined
             \<lparr>clients = [], apolloClient = None, trace = []\<rparr>)))) =
       [NewApolloClient 0,
        PageGetInitialProps
          \<lparr>AppTree = ''App'', ctx_ctx = Undefined, ctx_res = Undefined, ctx_apolloClient = Some 0\<rparr>,
        CacheExtract 0]
   \<and> length (clients (snd (WithApollo_getInitialProps \<lparr>has_window = True, SERVER_URL = ''/graphql''\<rparr> True
          \<lparr>getInitialProps = Some (\<lambda>cx d. (Inr Map.empty, cx, d))\<rparr>
          \<lparr>import_ssr = None, getDataFromTree = (\<lambda>el d. (None, d))\<rparr>
          \<lparr>AppTree = ''App'', ctx_ctx = Undefined, ctx_res = Undefined, ctx_apolloClient = None\<rparr>
          (snd (initApolloClient \<lparr>has_window = True, SERVER_URL = ''/graphql''\<rparr> Undefined Undefined
             \<lparr>clients = [], apolloClient = None, trace = []\<rparr>))))) = 1"
  by (simp add: WithApollo_getInitialProps_def attach_client_def after_page_hook_def
      initApolloClient_def createApolloClient_def
      new_ApolloClient_def emit_def run_page_hook_def request_headers_def js_and_def
      client_cache_def set_client_cache_def extract_and_return_def)

text \<open>
  Claim C3, amended. Every invocation of the hook takes its client from
  \<open>initApolloClient\<close>, called with \<^verbatim>\<open>null\<close> and the headers of the request, and attaches
  it to the request context; only then it runs the hook of the wrapped component, on that
  context and in the state the call has left, and all the rest follows from what the
  wrapped hook returns. The client is a new instance, built from \<^verbatim>\<open>null\<close> and the request
  headers, when there is no window object; it is a new instance, built from \<^verbatim>\<open>null\<close> and
  no headers and stored in the module variable, in a browser whose module variable is
  still \<^verbatim>\<open>null\<close>; in a browser whose module variable holds a client it is that client,
  and nothing is constructed.
\<close>

theorem getInitialProps_attaches_client:
  assumes "initApolloClient e Null (request_headers cx) w = (c, w1)"
  shows "attach_client e cx w = (c, cx\<lparr>ctx_apolloClient := Some c\<rparr>, w1)
    \<and> (c, w1) =
        (if has_window e then
           (case apolloClient w of
              Some s \<Rightarrow> (s, w)
            | None \<Rightarrow>
                (length (clients w),
                 w\<lparr>clients := clients w @ [apolloClient_options e Null Undefined],
                   apolloClient := Some (length (clients w)),
                   trace := trace w @ [NewApolloClient (length (clients w))]\<rparr>))
         else
           (length (clients w),
            w\<lparr>clients := clients w @ [apolloClient_options e Null (request_headers cx)],
              trace := trace w @ [NewApolloClient (length (clients w))]\<rparr>))
    \<and> WithApollo_getInitialProps e ssr PageComponent ext cx w =
        (case run_page_hook PageComponent (cx\<lparr>ctx_apolloClient := Some c\<rparr>) c w1 of
           (Inl thrown, cx2, w2) \<Rightarrow> (Inl thrown, w2)
         | (Inr pageProps, cx2, w2) \<Rightarrow>
             after_page_hook e ssr ext (AppTree cx) c pageProps cx2 w2)
    \<and> (\<exists>rest. trace (snd (WithApollo_getInitialProps e ssr PageComponent ext cx w)) =
          trace w1 @
          (case getInitialProps PageComponent of
             None \<Rightarrow> []
           | Some hook \<Rightarrow> [PageGetInitialProps (cx\<lparr>ctx_apolloClient := Some c\<rparr>)]) @ rest)"
proof -
  have 1: "attach_client e cx w = (c, cx\<lparr>ctx_apolloClient := Some c\<rparr>, w1)"
    using assms by (simp add: attach_client_def)
  have 2: "(c, w1) =
        (if has_window e then
           (case apolloClient w of
              Some s \<Rightarrow> (s, w)
            | None \<Rightarrow>
                (length (clients w),
                 w\<lparr>clients := clients w @ [apolloClient_options e Null Undefined],
                   apolloClient := Some (length (clients w)),
                   trace := trace w @ [NewApolloClient (length (clients w))]\<rparr>))
         else
           (length (clients w),
            w\<lparr>clients := clients w @ [apolloClient_options e Null (request_headers cx)],
              trace := trace w @ [NewApolloClient (length (clients w))]\<rparr>))"
    unfolding assms [symmetric]
    by (cases "apolloClient w") (simp_all add: initApolloClient_def createApolloClient_eq)
  have 3: "WithApollo_getInitialProps e ssr PageComponent ext cx w =
        (case run_page_hook PageComponent (cx\<lparr>ctx_apolloClient := Some c\<rparr>) c w1 of
           (Inl thrown, cx2, w2) \<Rightarrow> (Inl thrown, w2)
         | (Inr pageProps, cx2, w2) \<Rightarrow>
             after_page_hook e ssr ext (AppTree cx) c pageProps cx2 w2)"
    by (simp add: WithApollo_getInitialProps_def 1)
  have 4: "\<exists>rest. trace (snd (WithApollo_getInitialProps e ssr PageComponent ext cx w)) =
          trace w1 @
          (case getInitialProps PageComponent of
             None \<Rightarrow> []
           | Some hook \<Rightarrow> [PageGetInitialProps (cx\<lparr>ctx_apolloClient := Some c\<rparr>)]) @ rest"
    using assms by (rule getInitialProps_trace_extends)
  from 1 2 3 4 show ?thesis by blast
qed

theorem getInitialProps_attaches_client_witness:
  "initApolloClient \<lparr>has_window = False, SERVER_URL = ''/graphql''\<rparr> Null
      (request_headers
         \<lparr>AppTree = ''App'',
          ctx_ctx = Val \<lparr>req = Val \<lparr>headers = Val [''cookie'' \<mapsto> ''sid=1'']\<rparr>\<rparr>,
          ctx_res = Undefined, ctx_apolloClient = None\<rparr>)
      \<lparr>clients = [], apolloClient = None, trace = []\<rparr> =
     (0, \<lparr>clients =
            [\<lparr>ssrMode = True,
              link = \<lparr>uri = ''/graphql'', credentials = ''include'',
                      opts_credentials = ''include'',
                      link_headers = [(''cookie'', Val ''sid=1'')]\<rparr>,
              cache = []\<rparr>],
          apolloClient = None, trace = [NewApolloClient 0]\<rparr>)
   \<and> attach_client \<lparr>has_window = False, SERVER_URL = ''/graphql''\<rparr>
       \<lparr>AppTree = ''App'',
        ctx_ctx = Val \<lparr>req = Val \<lparr>headers = Val [''cookie'' \<mapsto> ''sid=1'']\<rparr>\<rparr>,
        ctx_res = Undefined, ctx_apolloClient = None\<rparr>
       \<lparr>clients = [], apolloClient = None, trace = []\<rparr> =
     (0,
      \<lparr>AppTree = ''App'',
       ctx_ctx = Val \<lparr>req = Val \<lparr>headers = Val [''cookie'' \<mapsto> ''sid=1'']\<rparr>\<rparr>,
       ctx_res = Undefined, ctx_apolloClient = Some 0\<rparr>,
      \<lparr>clients =
            [\<lparr>ssrMode = True,
              link = \<lparr>uri = ''/graphql'', credentials = ''include'',
                      opts_credentials = ''include'',
                      link_headers = [(''cookie'', Val ''sid=1'')]\<rparr>,
              cache = []\<rparr>],
          apolloClient = None, trace = [NewApolloClient 0]\<rparr>)"
proof -
  have i: "initApolloClient \<lparr>has_window = False, SERVER_URL = ''/graphql''\<rparr> Null
      (request_headers
         \<lparr>AppTree = ''App'',
          ctx_ctx = Val \<lparr>req = Val \<lparr>headers = Val [''cookie'' \<mapsto> ''sid=1'']\<rparr>\<rparr>,
          ctx_res = Undefined, ctx_apolloClient = None\<rparr>)
      \<lparr>clients = [], apolloClient = None, trace = []\<rparr> =
     (0, \<lparr>clients =
            [\<lparr>ssrMode = True,
              link = \<lparr>uri = ''/graphql'', credentials = ''include'',
                      opts_credentials = ''include'',
                      link_headers = [(''cookie'', Val ''sid=1'')]\<rparr>,
              cache = []\<rparr>],
          apolloClient = None, trace = [NewApolloClient 0]\<rparr>)"
    by (simp add: initApolloClient_def createApolloClient_def new_ApolloClient_def emit_def
        apolloClient_options_def InMemoryCache_restore_def request_headers_def js_and_def
        prop_of_def)
  from getInitialProps_attaches_client [OF i] i show ?thesis
    by simp
qed

text \<open>
  Claim C4. On the server, when the response is finished once the hook of the wrapped
  component has run (or, for a component without a hook, when it is finished at all),
  the hook of the wrapper returns the base properties as they are: nothing is merged
  into them, and the state is the one the wrapped hook has left, whose trace holds the
  construction of the client and the call of the wrapped hook only, so the render
  collaborator is not called and no cache is extracted.
\<close>

theorem getInitialProps_finished_returns_base:
  assumes "\<not> has_window e"
    and "run_page_hook PageComponent (cx\<lparr>ctx_apolloClient := Some (length (clients w))\<rparr>)
           (length (clients w)) (snd (initApolloClient e Null (request_headers cx) w)) =
         (Inr pageProps, cx2, w2)"
    and "ctx_res cx2 = Val res"
    and "finished res"
  shows "WithApollo_getInitialProps e ssr PageComponent ext cx w = (Inr pageProps, w2)
    \<and> trace w2 = trace w @ NewApolloClient (length (clients w)) #
        (case getInitialProps PageComponent of
           None \<Rightarrow> []
         | Some hook \<Rightarrow>
             [PageGetInitialProps (cx\<lparr>ctx_apolloClient := Some (length (clients w))\<rparr>)])"
proof -
  obtain w1 where i: "initApolloClient e Null (request_headers cx) w = (length (clients w), w1)"
    and t1: "trace w1 = trace w @ [NewApolloClient (length (clients w))]"
    using assms(1) by (simp add: initApolloClient_server)
  have h: "run_page_hook PageComponent (cx\<lparr>ctx_apolloClient := Some (length (clients w))\<rparr>)
           (length (clients w)) w1 = (Inr pageProps, cx2, w2)"
    using assms(2) i by simp
  have f: "res_finished cx2"
    using assms(3,4) by (simp add: res_finished_def)
  have 1: "WithApollo_getInitialProps e ssr PageComponent ext cx w = (Inr pageProps, w2)"
    using assms(1) i h f by (simp add: WithApollo_getInitialProps_def attach_client_def
          after_page_hook_def)
  have 2: "trace w2 = trace w1 @
        (case getInitialProps PageComponent of
           None \<Rightarrow> []
         | Some hook \<Rightarrow>
             [PageGetInitialProps (cx\<lparr>ctx_apolloClient := Some (length (clients w))\<rparr>)])"
    using h by (rule run_page_hook_trace)
  from 1 2 t1 show ?thesis by simp
qed

theorem getInitialProps_finished_returns_base_witness:
  "\<not> has_window \<lparr>has_window = False, SERVER_URL = ''/graphql''\<rparr>
   \<and> ctx_res \<lparr>AppTree = ''App'', ctx_ctx = Undefined,
        ctx_res = Val \<lparr>finished = True\<rparr>, ctx_apolloClient = Some 0\<rparr> = Val \<lparr>finished = True\<rparr>
   \<and> finished \<lparr>finished = True\<rparr>
   \<and> fst (WithApollo_getInitialProps \<lparr>has_window = False, SERVER_URL = ''/graphql''\<rparr> True
        \<lparr>getInitialProps =
           Some (\<lambda>cx d. (Inr [''title'' \<mapsto> JStr ''Moved''],
                        cx\<lparr>ctx_res := Val \<lparr>finished = True\<rparr>\<rparr>, d))\<rparr>
        \<lparr>import_ssr = None, getDataFromTree = (\<lambda>el d. (None, (''ROOT_QUERY'', JNull) # d))\<rparr>
        \<lparr>AppTree = ''App'', ctx_ctx = Undefined, ctx_res = Undefined, ctx_apolloClient = None\<rparr>
        \<lparr>clients = [], apolloClient = None, trace = []\<rparr>) = Inr [''title'' \<mapsto> JStr ''Moved'']
   \<and> trace (snd (WithApollo_getInitialProps \<lparr>has_window = False, SERVER_URL = ''/graphql''\<rparr> True
        \<lparr>getInitialProps =
           Some (\<lambda>cx d. (Inr [''title'' \<mapsto> JStr ''Moved''],
                        cx\<lparr>ctx_res := Val \<lparr>finished = True\<rparr>\<rparr>, d))\<rparr>
        \<lparr>import_ssr = None, getDataFromTree = (\<lambda>el d. (None, (''ROOT_QUERY'', JNull) # d))\<rparr>
        \<lparr>AppTree = ''App'', ctx_ctx = Undefined, ctx_res = Undefined, ctx_apolloClient = None\<rparr>
        \<lparr>clients = [], apolloClient = None, trace = []\<rparr>)) =
      [NewApolloClient 0,
       PageGetInitialProps \<lparr>AppTree = ''App'', ctx_ctx = Undefined, ctx_res = Undefined,
         ctx_apolloClient = Some 0\<rparr>]"
  using getInitialProps_finished_returns_base
    [where e = "\<lparr>has_window = False, SERVER_URL = ''/graphql''\<rparr>"
       and PageComponent = "\<lparr>getInitialProps =
           Some (\<lambda>cx d. (Inr [''title'' \<mapsto> JStr ''Moved''],
                        cx\<lparr>ctx_res := Val \<lparr>finished = True\<rparr>\<rparr>, d))\<rparr>"
       and cx = "\<lparr>AppTree = ''App'', ctx_ctx = Undefined, ctx_res = Undefined,
          ctx_apolloClient = None\<rparr>"
       and w = "\<lparr>clients = [], apolloClient = None, trace = []\<rparr>"
       and pageProps = "[''title'' \<mapsto> JStr ''Moved'']"
       and ?cx2.0 = "\<lparr>AppTree = ''App'', ctx_ctx = Undefined,
          ctx_res = Val \<lparr>finished = True\<rparr>, ctx_apolloClient = Some 0\<rparr>"
       and ?w2.0 = "\<lparr>clients =
            [apolloClient_options \<lparr>has_window = False, SERVER_URL = ''/graphql''\<rparr> Null Undefined],
          apolloClient = None,
          trace = [NewApolloClient 0,
            PageGetInitialProps \<lparr>AppTree = ''App'', ctx_ctx = Undefined, ctx_res = Undefined,
              ctx_apolloClient = Some 0\<rparr>]\<rparr>"
       and res = "\<lparr>finished = True\<rparr>"
       and ssr = True
       and ext = "\<lparr>import_ssr = None,
          getDataFromTree = (\<lambda>el d. (None, (''ROOT_QUERY'', JNull) # d))\<rparr>"]
  by (simp add: initApolloClient_def createApolloClient_def new_ApolloClient_def emit_def
      run_page_hook_def request_headers_def js_and_def client_cache_def set_client_cache_def
      apolloClient_options_def InMemoryCache_restore_def)

lemma length_clients_emit: "length (clients (emit ev w)) = length (clients w)"
  by (simp add: emit_def)

lemma length_clients_set_client_cache:
  "length (clients (set_client_cache c d w)) = length (clients w)"
  by (simp add: set_client_cache_def)

lemma client_cache_set_client_cache:
  "c < length (clients w) \<Longrightarrow> client_cache (set_client_cache c d w) c = d"
  by (simp add: client_cache_def set_client_cache_def)

lemma client_cache_emit: "client_cache (emit ev w) c = client_cache w c"
  by (simp add: client_cache_def emit_def)

lemma run_page_hook_length:
  assumes "run_page_hook PageComponent cx c w = (r, cx', w')"
  shows "length (clients w') = length (clients w)"
proof (cases "getInitialProps PageComponent")
  case None
  then show ?thesis using assms by (simp add: run_page_hook_def)
next
  case (Some hook)
  obtain r0 cx0 d where "hook cx (client_cache w c) = (r0, cx0, d)"
    by (cases "hook cx (client_cache w c)")
  then have "w' = set_client_cache c d (emit (PageGetInitialProps cx) w)"
    using assms Some by (simp add: run_page_hook_def)
  then show ?thesis by (simp add: length_clients_set_client_cache length_clients_emit)
qed

text \<open>
  A failure of the recursive render whose thrown value has properties to read (any value
  but \<^verbatim>\<open>undefined\<close> and \<^verbatim>\<open>null\<close>) is caught and logged, and the hook returns the base
  properties merged with the cache as the render has left it.
\<close>

lemma getDataFromTree_failure_swallowed:
  assumes server: "\<not> has_window e"
    and ssr: "ssr"
    and hook: "run_page_hook PageComponent (cx\<lparr>ctx_apolloClient := Some (length (clients w))\<rparr>)
           (length (clients w)) (snd (initApolloClient e Null (request_headers cx) w)) =
         (Inr pageProps, cx2, w2)"
    and unfinished: "\<not> res_finished cx2"
    and import: "import_ssr ext = None"
    and render: "getDataFromTree ext
           \<lparr>el_type = AppTree cx,
            el_pageProps = pageProps(''apolloClient'' \<mapsto> JClient (length (clients w)))\<rparr>
           (client_cache w2 (length (clients w))) = (Some err, d)"
    and msg: "get_message err = Inr m"
  shows "fst (WithApollo_getInitialProps e ssr PageComponent ext cx w) =
           Inr (pageProps(''apolloState'' \<mapsto> JObj d))
    \<and> trace (snd (WithApollo_getInitialProps e ssr PageComponent ext cx w)) =
        trace w2 @
        [ImportSsr,
         GetDataFromTree
           \<lparr>el_type = AppTree cx,
            el_pageProps = pageProps(''apolloClient'' \<mapsto> JClient (length (clients w)))\<rparr>,
         ConsoleError
           [JStr (''Error while running '' @ [CHR 0x60] @ ''getDataFromTree'' @ [CHR 0x60]), m],
         HeadRewind,
         CacheExtract (length (clients w))]"
proof -
  let ?n = "length (clients w)"
  let ?el = "\<lparr>el_type = AppTree cx, el_pageProps = pageProps(''apolloClient'' \<mapsto> JClient ?n)\<rparr>"
  let ?w3 = "set_client_cache ?n d (emit (GetDataFromTree ?el) (emit ImportSsr w2))"
  let ?log = "ConsoleError
           [JStr (''Error while running '' @ [CHR 0x60] @ ''getDataFromTree'' @ [CHR 0x60]), m]"
  obtain w1 where i: "initApolloClient e Null (request_headers cx) w = (?n, w1)"
    and l1: "length (clients w1) = Suc ?n"
    using server by (simp add: initApolloClient_server)
  have h: "run_page_hook PageComponent (cx\<lparr>ctx_apolloClient := Some ?n\<rparr>) ?n w1 =
      (Inr pageProps, cx2, w2)"
    using hook i by simp
  then have l2: "length (clients w2) = Suc ?n"
    using run_page_hook_length l1 by metis
  have t: "try_block ext ?el ?n w2 = (Some err, ?w3)"
    using import render by (simp add: try_block_def client_cache_emit)
  have p: "ssr_prefetch ext ?el ?n w2 = (Inr (), emit HeadRewind (emit ?log ?w3))"
    using t msg by (simp add: ssr_prefetch_def)
  have c: "client_cache (emit HeadRewind (emit ?log ?w3)) ?n = d"
    using l2 by (simp add: client_cache_emit client_cache_set_client_cache length_clients_emit)
  have r: "WithApollo_getInitialProps e ssr PageComponent ext cx w =
      extract_and_return pageProps ?n (emit HeadRewind (emit ?log ?w3))"
    using server ssr i h unfinished p by (simp add: WithApollo_getInitialProps_def attach_client_def
          after_page_hook_def)
  show ?thesis
    unfolding r extract_and_return_def c
    by (simp add: trace_emit trace_set_client_cache)
qed

text \<open>An instance: the render rejects with an error object; the page is served all the same.\<close>

lemma getDataFromTree_error_object_example:
  "fst (WithApollo_getInitialProps \<lparr>has_window = False, SERVER_URL = ''/graphql''\<rparr> True
        \<lparr>getInitialProps = None\<rparr>
        \<lparr>import_ssr = None,
         getDataFromTree = (\<lambda>el d. (Some (JObj [(''message'', JStr ''boom'')]), d))\<rparr>
        \<lparr>AppTree = ''App'', ctx_ctx = Undefined, ctx_res = Undefined, ctx_apolloClient = None\<rparr>
        \<lparr>clients = [], apolloClient = None, trace = []\<rparr>) = Inr [''apolloState'' \<mapsto> JObj []]
   \<and> trace (snd (WithApollo_getInitialProps \<lparr>has_window = False, SERVER_URL = ''/graphql''\<rparr> True
        \<lparr>getInitialProps = None\<rparr>
        \<lparr>import_ssr = None,
         getDataFromTree = (\<lambda>el d. (Some (JObj [(''message'', JStr ''boom'')]), d))\<rparr>
        \<lparr>AppTree = ''App'', ctx_ctx = Undefined, ctx_res = Undefined, ctx_apolloClient = None\<rparr>
        \<lparr>clients = [], apolloClient = None, trace = []\<rparr>)) =
      [NewApolloClient 0, ImportSsr,
       GetDataFromTree \<lparr>el_type = ''App'', el_pageProps = [''apolloClient'' \<mapsto> JClient 0]\<rparr>,
       ConsoleError
         [JStr (''Error while running '' @ [CHR 0x60] @ ''getDataFromTree'' @ [CHR 0x60]),
          JStr ''boom''],
       HeadRewind, CacheExtract 0]"
  by (simp add: WithApollo_getInitialProps_def attach_client_def after_page_hook_def
      initApolloClient_def createApolloClient_def
      new_ApolloClient_def emit_def run_page_hook_def request_headers_def js_and_def
      client_cache_def set_client_cache_def res_finished_def ssr_prefetch_def try_block_def
      extract_and_return_def apolloClient_options_def InMemoryCache_restore_def)

text \<open>
  Claim C8 fails on the code at one kind of failure: when the recursive render rejects
  with \<^verbatim>\<open>null\<close> (or \<^verbatim>\<open>undefined\<close>), the \<^verbatim>\<open>catch\<close> block itself throws while it reads
  \<^verbatim>\<open>error.message\<close> for the log line, so the hook rejects with a \<^verbatim>\<open>TypeError\<close>: nothing
  is logged, the head is not rewound and no properties are returned.
\<close>

theorem getDataFromTree_null_rejection_propagates:
  "fst (WithApollo_getInitialProps \<lparr>has_window = False, SERVER_URL = ''/graphql''\<rparr> True
        \<lparr>getInitialProps = None\<rparr>
        \<lparr>import_ssr = None, getDataFromTree = (\<lambda>el d. (Some JNull, d))\<rparr>
        \<lparr>AppTree = ''App'', ctx_ctx = Undefined, ctx_res = Undefined, ctx_apolloClient = None\<rparr>
        \<lparr>clients = [], apolloClient = None, trace = []\<rparr>) = Inl TypeError
   \<and> trace (snd (WithApollo_getInitialProps \<lparr>has_window = False, SERVER_URL = ''/graphql''\<rparr> True
        \<lparr>getInitialProps = None\<rparr>
        \<lparr>import_ssr = None, getDataFromTree = (\<lambda>el d. (Some JNull, d))\<rparr>
        \<lparr>AppTree = ''App'', ctx_ctx = Undefined, ctx_res = Undefined, ctx_apolloClient = None\<rparr>
        \<lparr>clients = [], apolloClient = None, trace = []\<rparr>)) =
      [NewApolloClient 0, ImportSsr,
       GetDataFromTree \<lparr>el_type = ''App'', el_pageProps = [''apolloClient'' \<mapsto> JClient 0]\<rparr>]"
  by (simp add: WithApollo_getInitialProps_def attach_client_def after_page_hook_def
      initApolloClient_def createApolloClient_def
      new_ApolloClient_def emit_def run_page_hook_def request_headers_def js_and_def
      client_cache_def set_client_cache_def res_finished_def ssr_prefetch_def try_block_def)


end
